theory Spec2Isabelle
  imports Main "HOL-Library.Word" "HOL-Library.Multiset"
begin

section \<open>Bytes, paths and exceptions\<close>

text \<open>
  A file is the list of its bytes. A path is the list of its parts, as \<open>pathlib\<close> keeps it,
  so that \<open>input_dir / input_name\<close> appends one part.
\<close>

type_synonym byte = "8 word"
type_synonym bytes = "byte list"
type_synonym path = "string list"

text \<open>
  The exceptions the two scripts can meet. \<open>Data_size_mismatch expected got\<close> is the
  \<open>ValueError\<close> raised at line 43 of \<open>convert_dataset.py\<close>; \<open>Read_length_error\<close> is the
  \<open>ValueError\<close> that a buffered reader raises for a read length below \<open>-1\<close>;
  \<open>Struct_error\<close> is \<open>struct.error\<close>; \<open>OverflowError\<close> and \<open>MemoryError\<close> are what a read
  raises for a length too large for a byte string or for the allocator; \<open>SystemExit\<close> is what
  \<open>sys.exit\<close> raises.
\<close>

datatype error =
    FileNotFoundError
  | Struct_error
  | Read_length_error
  | OverflowError
  | MemoryError
  | Data_size_mismatch int nat
  | SystemExit int

text \<open>\<open>except Exception\<close> catches every exception above but \<open>SystemExit\<close>.\<close>

fun is_Exception :: "error \<Rightarrow> bool" where
  "is_Exception (SystemExit c) = False"
| "is_Exception e = True"

section \<open>The \<open>struct\<close> codes \<open>'i'\<close> and \<open>'I'\<close>\<close>

text \<open>
  Both codes are four bytes in native byte order; the model takes the little-endian order of
  the platforms the datasets are written on. \<open>le_uint\<close> reads a little-endian byte string
  as an unsigned number, \<open>le_bytes n\<close> writes the \<open>n\<close> low bytes of a number.
\<close>

fun le_uint :: "bytes \<Rightarrow> int" where
  "le_uint [] = 0"
| "le_uint (b # bs) = uint b + 256 * le_uint bs"

fun le_bytes :: "nat \<Rightarrow> int \<Rightarrow> bytes" where
  "le_bytes 0 v = []"
| "le_bytes (Suc n) v = word_of_int (v mod 256) # le_bytes n (v div 256)"

text \<open>The two's complement reading of an unsigned 32-bit value.\<close>

definition to_signed32 :: "int \<Rightarrow> int" where
  "to_signed32 u = (if u < 2147483648 then u else u - 4294967296)"

text \<open>
  \<open>struct.unpack('i', b)[0]\<close>: \<open>struct.error\<close> unless \<open>b\<close> has exactly four bytes; the
  value is read as a signed 32-bit integer.
\<close>

definition unpack_i :: "bytes \<Rightarrow> error + int" where
  "unpack_i b = (if length b \<noteq> 4 then Inl Struct_error else Inr (to_signed32 (le_uint b)))"

text \<open>
  \<open>struct.pack('I', v)\<close>: \<open>struct.error\<close> unless \<open>0 \<le> v \<le> 2^32 - 1\<close>; Python integers are
  unbounded, so \<open>v\<close> is an \<open>int\<close>.
\<close>

definition pack_I :: "int \<Rightarrow> error + bytes" where
  "pack_I v =
     (if 0 \<le> v \<and> v \<le> 4294967295 then Inr (le_bytes 4 v) else Inl Struct_error)"

section \<open>Reading from a binary file object\<close>

text \<open>\<open>sys.maxsize\<close> of a 64-bit CPython, the largest \<open>Py_ssize_t\<close>.\<close>

definition sys_maxsize :: int where
  "sys_maxsize = 9223372036854775807"

text \<open>
  \<open>f.read(n)\<close> on the bytes not yet consumed: the bytes read and the bytes left.
  \<^item> A length that is no \<open>Py_ssize_t\<close> raises \<open>OverflowError\<close>, and so does a length from
    \<open>sys.maxsize - 32\<close> on: a byte string of \<open>n\<close> bytes takes \<open>n + 33\<close> bytes, and the
    reader makes it before it reads.
  \<^item> A length below \<open>-1\<close> raises \<open>ValueError\<close>; \<open>-1\<close> reads to the end of the file.
  \<^item> A length the allocator cannot give raises \<open>MemoryError\<close>. What it can give depends on
    the machine: it is the parameter \<open>limit\<close>, the largest length a read gets. The four bytes
    of a header word it always gets, whatever \<open>limit\<close> is.
  \<^item> Otherwise at most \<open>n\<close> bytes are returned, fewer at the end of the file.
\<close>

definition read :: "nat \<Rightarrow> int \<Rightarrow> bytes \<Rightarrow> error + bytes \<times> bytes" where
  "read limit n f =
     (if n > sys_maxsize - 33 \<or> n < - sys_maxsize - 1 then Inl OverflowError
      else if n < - 1 then Inl Read_length_error
      else if n = - 1 then Inr (f, [])
      else if 4 < n \<and> int limit < n then Inl MemoryError
      else Inr (take (nat n) f, drop (nat n) f))"

section \<open>The world: files and standard output\<close>

text \<open>
  The lines printed, one constructor for each \<open>print\<close> of \<open>convert_bin_to_fbin\<close> and of
  the loop of \<open>main\<close>.
\<close>

datatype line =
    Converting path path
  | Input_format int int
  | Output_format int int
  | Conversion_successful
  | Blank
  | Warning_not_found string
  | Error_converting string error

text \<open>
  The file system maps a path to the bytes of the regular file there: a path is a regular
  file or absent. Opening an absent path for reading raises \<open>FileNotFoundError\<close>; opening a
  path for writing creates or truncates the file (the batch driver has made the output
  directory before). \<open>memory\<close> is the largest length a read gets from the allocator, the
  \<open>limit\<close> of every \<open>read\<close>.
\<close>

record world =
  files :: "path \<rightharpoonup> bytes"
  stdout :: "line list"
  memory :: nat

definition print :: "line \<Rightarrow> world \<Rightarrow> world" where
  "print l w = w\<lparr>stdout := stdout w @ [l]\<rparr>"

definition put :: "path \<Rightarrow> bytes \<Rightarrow> world \<Rightarrow> world" where
  "put p c w = w\<lparr>files := (files w)(p \<mapsto> c)\<rparr>"

section \<open>\<open>convert_bin_to_fbin\<close>\<close>

text \<open>Line 38: four bytes an element for \<open>'f'\<close>, eight for anything else.\<close>

definition element_size :: "string \<Rightarrow> int" where
  "element_size data_type = (if data_type = ''f'' then 4 else 8)"

text \<open>
  Lines 25 to 43: the first \<open>with\<close> block. It returns \<open>(dim, count, data)\<close> or the exception
  raised, and the world with the line printed on the way (the variable \<open>count\<close> of the
  source is written \<open>cnt\<close>).
\<close>

definition read_input :: "world \<Rightarrow> path \<Rightarrow> string \<Rightarrow> (error + int \<times> int \<times> bytes) \<times> world" where
  "read_input w input_file data_type =
     (case files w input_file of
        None \<Rightarrow> (Inl FileNotFoundError, w)
      | Some f0 \<Rightarrow>
        (case read (memory w) 4 f0 of
           Inl e \<Rightarrow> (Inl e, w)
         | Inr (b1, f1) \<Rightarrow>
           (case unpack_i b1 of
              Inl e \<Rightarrow> (Inl e, w)
            | Inr first_meta \<Rightarrow>
              (case read (memory w) 4 f1 of
                 Inl e \<Rightarrow> (Inl e, w)
               | Inr (b2, f2) \<Rightarrow>
                 (case unpack_i b2 of
                    Inl e \<Rightarrow> (Inl e, w)
                  | Inr second_meta \<Rightarrow>
                    (let w1 = print (Input_format first_meta second_meta) w;
                         dim = first_meta;
                         cnt = second_meta;
                         data_size = dim * cnt * element_size data_type
                     in case read (memory w) data_size f2 of
                          Inl e \<Rightarrow> (Inl e, w1)
                        | Inr (data, f3) \<Rightarrow>
                          if int (length data) \<noteq> data_size
                          then (Inl (Data_size_mismatch data_size (length data)), w1)
                          else (Inr (dim, cnt, data), w1)))))))"

text \<open>
  Lines 46 to 49: the second \<open>with\<close> block. \<open>open(output_file, 'wb')\<close> leaves an empty
  file; each \<open>f.write\<close> appends; an exception in \<open>struct.pack\<close> closes the file with what was
  written before it.
\<close>

definition write_output :: "world \<Rightarrow> path \<Rightarrow> int \<Rightarrow> int \<Rightarrow> bytes \<Rightarrow> (error + unit) \<times> world" where
  "write_output w output_file cnt dim data =
     (let w0 = put output_file [] w in
      case pack_I cnt of
        Inl e \<Rightarrow> (Inl e, w0)
      | Inr h1 \<Rightarrow>
        (let w1 = put output_file h1 w0 in
         case pack_I dim of
           Inl e \<Rightarrow> (Inl e, w1)
         | Inr h2 \<Rightarrow>
           (let w2 = put output_file (h1 @ h2) w1;
                w3 = put output_file (h1 @ h2 @ data) w2
            in (Inr (), w3))))"

definition convert_bin_to_fbin :: "world \<Rightarrow> path \<Rightarrow> path \<Rightarrow> string \<Rightarrow> (error + unit) \<times> world" where
  "convert_bin_to_fbin w input_file output_file data_type =
     (let w0 = print (Converting input_file output_file) w in
      case read_input w0 input_file data_type of
        (Inl e, w1) \<Rightarrow> (Inl e, w1)
      | (Inr (dim, cnt, data), w1) \<Rightarrow>
        (case write_output w1 output_file cnt dim data of
           (Inl e, w2) \<Rightarrow> (Inl e, w2)
         | (Inr u, w2) \<Rightarrow>
           (Inr (), print Conversion_successful (print (Output_format cnt dim) w2))))"

section \<open>The batch driver\<close>

text \<open>The list \<open>conversions\<close> of \<open>main\<close>.\<close>

definition conversions :: "(string \<times> string \<times> string) list" where
  "conversions =
     [(''openai_500k_train_vectors.bin'', ''openai500k_base.fbin'', ''f''),
      (''openai_500k_test_queries.bin'', ''openai500k_query.fbin'', ''f''),
      (''openai_500k_ground_truth.bin'', ''openai500k_groundtruth.ibin'', ''q'')]"

text \<open>
  The \<open>for\<close> loop of \<open>main\<close> (lines 86 to 99) over a list of entries. \<open>Inr ()\<close> is the loop
  running to its end; \<open>Inl (SystemExit 1)\<close> is \<open>sys.exit(1)\<close>.
\<close>

fun main_loop :: "path \<Rightarrow> path \<Rightarrow> (string \<times> string \<times> string) list \<Rightarrow> world \<Rightarrow> (error + unit) \<times> world" where
  "main_loop input_dir output_dir [] w = (Inr (), w)"
| "main_loop input_dir output_dir ((input_name, output_name, dtype) # rest) w =
     (let input_file = input_dir @ [input_name];
          output_file = output_dir @ [output_name]
      in if files w input_file = None
         then main_loop input_dir output_dir rest (print (Warning_not_found input_name) w)
         else (case convert_bin_to_fbin w input_file output_file dtype of
                 (Inr u, w1) \<Rightarrow> main_loop input_dir output_dir rest (print Blank w1)
               | (Inl e, w1) \<Rightarrow>
                 if is_Exception e
                 then (Inl (SystemExit 1), print (Error_converting input_name e) w1)
                 else (Inl e, w1)))"

section \<open>The benchmark summarizer (\<open>analyze_cagra_results.py\<close>)\<close>

text \<open>
  A parsed record is the dictionary \<open>parse_benchmark_result\<close> returns. \<open>threads\<close> is always
  there; the counters are there only when the benchmark has a \<open>counters\<close> entry, so they are
  optional and read with \<open>r.get(key, default)\<close>. The floating-point type is the parameter
  \<open>'f\<close>.
\<close>

record 'f result =
  threads :: int
  qps :: "'f option"
  recall :: "'f option"
  latency :: "'f option"
  total_queries :: "int option"

text \<open>\<open>d.get(key, default)\<close> on a key that may be absent.\<close>

definition get :: "'a option \<Rightarrow> 'a \<Rightarrow> 'a" where
  "get v d = (case v of None \<Rightarrow> d | Some x \<Rightarrow> x)"

text \<open>\<open>str\<close> of a Python integer, in decimal.\<close>

fun str_nat :: "nat \<Rightarrow> string" where
  "str_nat n =
     (if n < 10 then [''0123456789'' ! n]
      else str_nat (n div 10) @ [''0123456789'' ! (n mod 10)])"

definition str_int :: "int \<Rightarrow> string" where
  "str_int i = (if i < 0 then CHR ''-'' # str_nat (nat (- i)) else str_nat (nat i))"

text \<open>The format \<open>{s:>n}\<close>: pad with spaces on the left up to width \<open>n\<close>.\<close>

definition rjust :: "nat \<Rightarrow> string \<Rightarrow> string" where
  "rjust n s = replicate (n - length s) CHR '' '' @ s"

text \<open>
  Lines 88 and 99: the header and one row of the printed table. \<open>fmt k x\<close> stands for
  the fixed-point format \<open>{x:.kf}\<close> of a float and \<open>zero\<close> for the default \<open>0.0\<close>.
\<close>

definition table_header :: string where
  "table_header =
     rjust 12 ''Concurrency'' @ '' '' @ rjust 12 ''QPS'' @ '' '' @ rjust 10 ''Recall'' @ '' ''
       @ rjust 15 ''Latency(ms)'' @ '' '' @ rjust 15 ''Total Queries''"

definition table_row :: "(nat \<Rightarrow> 'f \<Rightarrow> string) \<Rightarrow> 'f \<Rightarrow> 'f result \<Rightarrow> string" where
  "table_row fmt zero r =
     rjust 12 (str_int (threads r)) @ '' '' @ rjust 12 (fmt 2 (get (qps r) zero)) @ '' ''
       @ rjust 10 (fmt 4 (get (recall r) zero)) @ '' '' @ rjust 15 (fmt 3 (get (latency r) zero))
       @ '' '' @ rjust 15 (str_int (get (total_queries r) 0))"

text \<open>Lines 115 to 118: the header line and one row of \<open>summary.csv\<close>.\<close>

definition csv_header :: string where
  "csv_header = ''Concurrency,QPS,Recall,Latency_ms,Total_Queries'' @ [CHR 0x0A]"

definition csv_row :: "(nat \<Rightarrow> 'f \<Rightarrow> string) \<Rightarrow> 'f \<Rightarrow> 'f result \<Rightarrow> string" where
  "csv_row fmt zero r =
     str_int (threads r) @ '','' @ fmt 2 (get (qps r) zero) @ '','' @ fmt 4 (get (recall r) zero)
       @ '','' @ fmt 3 (get (latency r) zero) @ '','' @ str_int (get (total_queries r) 0)
       @ [CHR 0x0A]"

text \<open>
  Lines 80 to 118 of \<open>main\<close>, from the list of parsed records on: exit with status 1 on an
  empty list; otherwise sort by \<open>threads\<close> (Python's sort is stable, as \<open>sort_key\<close> is),
  print the table and write the file. The result is the table lines and the text of
  \<open>summary.csv\<close>.
\<close>

definition summarize :: "(nat \<Rightarrow> 'f \<Rightarrow> string) \<Rightarrow> 'f \<Rightarrow> 'f result list \<Rightarrow> error + string list \<times> string" where
  "summarize fmt zero results =
     (if results = [] then Inl (SystemExit 1)
      else let results = sort_key threads results
           in Inr (table_header # replicate 80 CHR ''-'' # map (table_row fmt zero) results,
                   csv_header @ concat (map (csv_row fmt zero) results)))"

text \<open>Fields joined by a separator, to speak about the columns of a line.\<close>

fun join :: "string \<Rightarrow> string list \<Rightarrow> string" where
  "join sep [] = []"
| "join sep [x] = x"
| "join sep (x # y # ys) = x @ sep @ join sep (y # ys)"

section \<open>Example worlds\<close>

text \<open>
  A file that declares \<open>dim = 4\<close>, \<open>count = 1\<close> and carries 12 bytes where 16 are
  declared.
\<close>

definition truncated_world :: world where
  "truncated_world =
     \<lparr>files = [[''src''] \<mapsto> [4, 0, 0, 0, 1, 0, 0, 0, 1, 2, 3, 4, 5, 6, 7, 8, 9, 10, 11, 12]],
      stdout = [], memory = 1024\<rparr>"

text \<open>An 8-byte file whose first word is \<open>0x80000000\<close> and whose second word is 0.\<close>

definition high_bit_world :: world where
  "high_bit_world = \<lparr>files = [[''src''] \<mapsto> [0, 0, 0, 128, 0, 0, 0, 0]], stdout = [], memory = 1024\<rparr>"

text \<open>An 8-byte file whose first word is 0 and whose second word is \<open>0x80000000\<close>.\<close>

definition high_count_world :: world where
  "high_count_world =
     \<lparr>files = [[''src''] \<mapsto> [0, 0, 0, 0, 0, 0, 0, 128]], stdout = [], memory = 1024\<rparr>"

text \<open>
  A file that declares \<open>dim = 2\<close>, \<open>count = 3\<close> and carries six floats \<open>1.0\<close>, 24 bytes.
\<close>

definition six_floats :: bytes where
  "six_floats =
     [0, 0, 128, 63, 0, 0, 128, 63, 0, 0, 128, 63, 0, 0, 128, 63, 0, 0, 128, 63, 0, 0, 128, 63]"

definition six_floats_world :: world where
  "six_floats_world =
     \<lparr>files = [[''src''] \<mapsto> [2, 0, 0, 0, 3, 0, 0, 0] @ six_floats], stdout = [], memory = 1024\<rparr>"

text \<open>
  A file that declares \<open>dim = 1\<close>, \<open>count = 1\<close> and carries five bytes after the header
  where four are declared.
\<close>

definition overlong_world :: world where
  "overlong_world =
     \<lparr>files = [[''src''] \<mapsto> [1, 0, 0, 0, 1, 0, 0, 0, 9, 8, 7, 6, 5]], stdout = [], memory = 1024\<rparr>"

text \<open>
  An input directory \<open>in\<close> with a one-vector file of base vectors, a one-query file of
  ground truth, and the given file of queries, if any.
\<close>

definition batch_world :: "bytes option \<Rightarrow> world" where
  "batch_world queries =
     \<lparr>files = (\<lambda>p.
         if p = [''in'', ''openai_500k_train_vectors.bin'']
           then Some [1, 0, 0, 0, 1, 0, 0, 0, 7, 7, 7, 7]
         else if p = [''in'', ''openai_500k_test_queries.bin''] then queries
         else if p = [''in'', ''openai_500k_ground_truth.bin'']
           then Some [1, 0, 0, 0, 1, 0, 0, 0, 5, 0, 0, 0, 0, 0, 0, 0]
         else None),
      stdout = [], memory = 1024\<rparr>"

section \<open>Little-endian words\<close>

lemma length_le_bytes: "length (le_bytes n v) = n"
  by (induction n arbitrary: v) auto

lemma le_uint_nonneg: "0 \<le> le_uint b"
  by (induction b) auto

lemma uint_byte_less: "uint (x :: byte) < 256"
  using uint_bounded [of x] by simp

lemma le_uint_less: "le_uint b < 256 ^ length b"
proof (induction b)
  case Nil
  show ?case by simp
next
  case (Cons x b)
  have "uint x < 256" by (rule uint_byte_less)
  moreover have "le_uint b + 1 \<le> 256 ^ length b" using Cons by simp
  then have "256 * (le_uint b + 1) \<le> 256 * 256 ^ length b" by simp
  ultimately show ?case by simp
qed

lemma le_bytes_le_uint: "le_bytes (length b) (le_uint b) = b"
proof (induction b)
  case Nil
  show ?case by simp
next
  case (Cons x b)
  have x: "0 \<le> uint x" "uint x < 256" using uint_byte_less [of x] by simp_all
  have m: "(uint x + 256 * le_uint b) mod 256 = uint x" using x by simp
  have d: "(uint x + 256 * le_uint b) div 256 = le_uint b" using x by simp
  have "le_bytes (Suc (length b)) (uint x + 256 * le_uint b)
          = word_of_int (uint x) # le_bytes (length b) (le_uint b)"
    by (simp only: le_bytes.simps m d)
  then show ?case using Cons by simp
qed

lemma uint_byte_of_int: "uint (word_of_int (v mod 256) :: byte) = v mod 256"
  by (simp add: uint_word_of_int)

lemma le_uint_le_bytes: "0 \<le> v \<Longrightarrow> v < 256 ^ n \<Longrightarrow> le_uint (le_bytes n v) = v"
proof (induction n arbitrary: v)
  case 0
  then show ?case by simp
next
  case (Suc n)
  have "0 \<le> v div 256" using Suc.prems by simp
  moreover have "v < 256 * 256 ^ n" using Suc.prems by simp
  then have "v div 256 < 256 ^ n" by linarith
  ultimately have "le_uint (le_bytes n (v div 256)) = v div 256" by (rule Suc.IH)
  then show ?case by (simp add: uint_byte_of_int)
qed

lemma le_bytes_4:
  "le_bytes 4 v = [word_of_int (v mod 256), word_of_int (v div 256 mod 256),
     word_of_int (v div 256 div 256 mod 256), word_of_int (v div 256 div 256 div 256 mod 256)]"
  by (simp add: numeral_eq_Suc)

lemma le_uint_4_less: "length b = 4 \<Longrightarrow> le_uint b < 4294967296"
  using le_uint_less [of b] by simp

lemma le_uint_take_4: "2147483648 \<le> le_uint (take 4 f) \<Longrightarrow> 4 \<le> length f"
proof (rule ccontr)
  assume a: "2147483648 \<le> le_uint (take 4 f)" and "\<not> 4 \<le> length f"
  then have "length (take 4 f) \<le> 3" by simp
  then have "(256::int) ^ length (take 4 f) \<le> 256 ^ 3" by (intro power_increasing) simp_all
  with le_uint_less [of "take 4 f"] a show False by simp
qed

section \<open>\<open>unpack\<close> and \<open>pack\<close>\<close>

lemma unpack_i_4: "length b = 4 \<Longrightarrow> unpack_i b = Inr (to_signed32 (le_uint b))"
  by (simp add: unpack_i_def)

lemma to_signed32_negative: "2147483648 \<le> u \<Longrightarrow> u < 4294967296 \<Longrightarrow> to_signed32 u < 0"
  by (simp add: to_signed32_def)

lemma pack_I_unpack_i:
  assumes "unpack_i b = Inr v" and "0 \<le> v"
  shows "pack_I v = Inr b"
proof -
  have len: "length b = 4" using assms(1) by (simp add: unpack_i_def split: if_splits)
  have v: "v = to_signed32 (le_uint b)" using assms(1) len by (simp add: unpack_i_def)
  have u: "0 \<le> le_uint b" "le_uint b < 4294967296"
    using le_uint_nonneg [of b] le_uint_4_less [OF len] by simp_all
  have vu: "v = le_uint b" using v u assms(2) by (simp add: to_signed32_def split: if_splits)
  have "le_bytes 4 (le_uint b) = b" using le_bytes_le_uint [of b] len by simp
  then show ?thesis using vu u by (simp add: pack_I_def)
qed

section \<open>The two phases of a conversion\<close>

lemma read_4: "read m 4 f = Inr (take 4 f, drop 4 f)"
  by (simp add: read_def sys_maxsize_def)

lemma files_print [simp]: "files (print l w) = files w"
  by (simp add: print_def)

lemma memory_print [simp]: "memory (print l w) = memory w"
  by (simp add: print_def)

lemma memory_put [simp]: "memory (put p c w) = memory w"
  by (simp add: put_def)

lemma files_put [simp]: "files (put p c w) = (files w)(p \<mapsto> c)"
  by (simp add: put_def)

lemma stdout_put [simp]: "stdout (put p c w) = stdout w"
  by (simp add: put_def)

lemma split_header:
  assumes "8 \<le> length f"
  shows "f = take 4 f @ take 4 (drop 4 f) @ drop 8 f" and "length (take 4 f) = 4"
    and "length (take 4 (drop 4 f)) = 4"
proof -
  have "take 4 (drop 4 f) @ drop 8 f = drop 4 f"
    using append_take_drop_id [of 4 "drop 4 f"] by simp
  then show "f = take 4 f @ take 4 (drop 4 f) @ drop 8 f" by simp
  show "length (take 4 f) = 4" using assms by simp
  show "length (take 4 (drop 4 f)) = 4" using assms by simp
qed

text \<open>What the first phase does with a file that has its eight header bytes.\<close>

lemma read_input_header:
  assumes "files w input_file = Some (h1 @ h2 @ P)" and "length h1 = 4" and "length h2 = 4"
  shows "read_input w input_file data_type =
     (let dim = to_signed32 (le_uint h1);
          cnt = to_signed32 (le_uint h2);
          data_size = dim * cnt * element_size data_type;
          w1 = print (Input_format dim cnt) w
      in case read (memory w) data_size P of
           Inl e \<Rightarrow> (Inl e, w1)
         | Inr (data, f3) \<Rightarrow>
           if int (length data) \<noteq> data_size
           then (Inl (Data_size_mismatch data_size (length data)), w1)
           else (Inr (dim, cnt, data), w1))"
  using assms by (simp add: read_input_def read_4 unpack_i_4 Let_def)

lemma read_input_files: "read_input w input_file data_type = (r, w') \<Longrightarrow> files w' = files w"
  by (auto simp: read_input_def Let_def split: option.splits sum.splits prod.splits if_splits)

lemma write_output_ok:
  assumes "pack_I cnt = Inr h1" and "pack_I dim = Inr h2"
  shows "write_output w output_file cnt dim data =
     (Inr (), w\<lparr>files := (files w)(output_file \<mapsto> h1 @ h2 @ data)\<rparr>)"
  using assms by (simp add: write_output_def put_def Let_def)

lemma write_output_fails:
  assumes "\<not> (0 \<le> cnt \<and> cnt \<le> 4294967295) \<or> \<not> (0 \<le> dim \<and> dim \<le> 4294967295)"
  shows "\<exists>w'. write_output w output_file cnt dim data = (Inl Struct_error, w')"
  using assms by (auto simp: write_output_def pack_I_def Let_def)

lemma convert_read_fails:
  assumes "read_input (print (Converting input_file output_file) w) input_file data_type = (Inl e, w1)"
  shows "convert_bin_to_fbin w input_file output_file data_type = (Inl e, w1)"
  using assms by (simp add: convert_bin_to_fbin_def Let_def)

lemma convert_read_ok:
  assumes "read_input (print (Converting input_file output_file) w) input_file data_type
             = (Inr (dim, cnt, data), w1)"
  shows "convert_bin_to_fbin w input_file output_file data_type =
     (case write_output w1 output_file cnt dim data of
        (Inl e, w2) \<Rightarrow> (Inl e, w2)
      | (Inr u, w2) \<Rightarrow> (Inr (), print Conversion_successful (print (Output_format cnt dim) w2)))"
  using assms by (simp add: convert_bin_to_fbin_def Let_def)

lemma convert_short_file:
  assumes "files w input_file = Some f" and "length f < 8"
  shows "\<exists>w'. convert_bin_to_fbin w input_file output_file data_type = (Inl Struct_error, w')"
proof -
  have "length (take 4 f) \<noteq> 4 \<or> length (take 4 (drop 4 f)) \<noteq> 4"
    using assms(2) by auto
  then have "\<exists>w1. read_input (print (Converting input_file output_file) w) input_file data_type
      = (Inl Struct_error, w1)"
    using assms(1) by (auto simp: read_input_def read_4 unpack_i_def)
  then show ?thesis using convert_read_fails by blast
qed

lemma convert_negative_header:
  assumes f: "files w input_file = Some (h1 @ h2 @ P)"
    and l1: "length h1 = 4" and l2: "length h2 = 4"
    and neg: "to_signed32 (le_uint h1) < 0 \<or> to_signed32 (le_uint h2) < 0"
  shows "\<exists>e w'. convert_bin_to_fbin w input_file output_file data_type = (Inl e, w')"
proof -
  let ?w0 = "print (Converting input_file output_file) w"
  have f0: "files ?w0 input_file = Some (h1 @ h2 @ P)" using f by simp
  obtain r w1 where r: "read_input ?w0 input_file data_type = (r, w1)"
    by (cases "read_input ?w0 input_file data_type")
  show ?thesis
  proof (cases r)
    case (Inl e)
    with r convert_read_fails show ?thesis by blast
  next
    case (Inr t)
    obtain dim cnt data where t: "t = (dim, cnt, data)" by (cases t) auto
    have dc: "dim = to_signed32 (le_uint h1) \<and> cnt = to_signed32 (le_uint h2)"
      using r Inr t read_input_header [OF f0 l1 l2, of data_type]
      by (auto simp: Let_def split: sum.splits prod.splits if_splits)
    then have "\<not> (0 \<le> cnt \<and> cnt \<le> 4294967295) \<or> \<not> (0 \<le> dim \<and> dim \<le> 4294967295)"
      using neg by auto
    from write_output_fails [OF this] obtain w2 where
      "write_output w1 output_file cnt dim data = (Inl Struct_error, w2)" by blast
    then show ?thesis
      using convert_read_ok [of input_file output_file w data_type dim cnt data w1] r Inr t
      by simp
  qed
qed

lemma to_signed32_small: "u < 2147483648 \<Longrightarrow> to_signed32 u = u"
  by (simp add: to_signed32_def)

lemma element_size_pos: "0 < element_size data_type"
  by (simp add: element_size_def)

lemma read_in_range:
  assumes "0 \<le> n" and "n \<le> sys_maxsize - 33" and "n \<le> 4 \<or> n \<le> int m"
  shows "read m n f = Inr (take (nat n) f, drop (nat n) f)"
  using assms by (auto simp add: read_def sys_maxsize_def)

text \<open>
  A conversion that succeeds: both header words below \<open>2^31\<close> and at least \<open>data_size\<close>
  bytes after the header. The first \<open>data_size\<close> bytes are copied.
\<close>

lemma convert_ok:
  assumes f: "files w input_file = Some (h1 @ h2 @ P)"
    and l1: "length h1 = 4" and l2: "length h2 = 4"
    and s1: "le_uint h1 < 2147483648" and s2: "le_uint h2 < 2147483648"
    and ds: "data_size = le_uint h1 * le_uint h2 * element_size data_type"
    and enough: "data_size \<le> int (length P)" and fits: "data_size \<le> sys_maxsize - 33"
    and mem: "data_size \<le> 4 \<or> data_size \<le> int (memory w)"
  shows "convert_bin_to_fbin w input_file output_file data_type =
     (Inr (), w\<lparr>files := (files w)(output_file \<mapsto> h2 @ h1 @ take (nat data_size) P),
               stdout := stdout w @ [Converting input_file output_file,
                  Input_format (le_uint h1) (le_uint h2),
                  Output_format (le_uint h2) (le_uint h1), Conversion_successful]\<rparr>)"
proof -
  let ?w0 = "print (Converting input_file output_file) w"
  let ?w1 = "print (Input_format (le_uint h1) (le_uint h2)) ?w0"
  have f0: "files ?w0 input_file = Some (h1 @ h2 @ P)" using f by simp
  have nn: "0 \<le> data_size"
    using ds le_uint_nonneg [of h1] le_uint_nonneg [of h2] element_size_pos [of data_type] by simp
  have rd: "read (memory ?w0) data_size P = Inr (take (nat data_size) P, drop (nat data_size) P)"
    using read_in_range [OF nn fits, of "memory ?w0"] mem by simp
  have len: "int (length (take (nat data_size) P)) = data_size" using nn enough by simp
  have r: "read_input ?w0 input_file data_type
      = (Inr (le_uint h1, le_uint h2, take (nat data_size) P), ?w1)"
    using read_input_header [OF f0 l1 l2, of data_type] rd len ds
    by (simp add: to_signed32_small [OF s1] to_signed32_small [OF s2] Let_def)
  have p1: "pack_I (le_uint h1) = Inr h1"
    using pack_I_unpack_i [of h1 "le_uint h1"] unpack_i_4 [OF l1] to_signed32_small [OF s1]
      le_uint_nonneg [of h1] by simp
  have p2: "pack_I (le_uint h2) = Inr h2"
    using pack_I_unpack_i [of h2 "le_uint h2"] unpack_i_4 [OF l2] to_signed32_small [OF s2]
      le_uint_nonneg [of h2] by simp
  show ?thesis
    using convert_read_ok [OF r]
      write_output_ok [OF p2 p1, of ?w1 output_file "take (nat data_size) P"]
    by (simp add: print_def)
qed

text \<open>
  A conversion of a file with fewer bytes after the header than the header declares: it
  raises inside the first \<open>with\<close> block, in \<open>f.read\<close> or at line 43.
\<close>

lemma convert_short_payload:
  assumes f: "files w input_file = Some (h1 @ h2 @ P)"
    and l1: "length h1 = 4" and l2: "length h2 = 4"
    and ds: "data_size = to_signed32 (le_uint h1) * to_signed32 (le_uint h2) * element_size data_type"
    and short: "int (length P) < data_size"
  shows "\<exists>w'. convert_bin_to_fbin w input_file output_file data_type
             = (Inl (if sys_maxsize - 33 < data_size then OverflowError
                     else if 4 < data_size \<and> int (memory w) < data_size then MemoryError
                     else Data_size_mismatch data_size (length P)), w')
           \<and> files w' = files w"
proof -
  let ?w0 = "print (Converting input_file output_file) w"
  let ?e = "if sys_maxsize - 33 < data_size then OverflowError
            else if 4 < data_size \<and> int (memory w) < data_size then MemoryError
            else Data_size_mismatch data_size (length P)"
  have f0: "files ?w0 input_file = Some (h1 @ h2 @ P)" using f by simp
  have nn: "0 \<le> data_size" using short by simp
  have rd: "read (memory ?w0) data_size P =
      (if sys_maxsize - 33 < data_size then Inl OverflowError
       else if 4 < data_size \<and> int (memory w) < data_size then Inl MemoryError
       else Inr (P, []))"
    using nn short by (simp add: read_def sys_maxsize_def)
  have "\<exists>w1. read_input ?w0 input_file data_type = (Inl ?e, w1) \<and> files w1 = files w"
    using read_input_header [OF f0 l1 l2, of data_type] rd ds short
    by (simp add: Let_def)
  then show ?thesis using convert_read_fails by blast
qed

text \<open>The exceptions of a conversion, and the one path it writes.\<close>

lemma read_input_Exception: "read_input w input_file data_type = (Inl e, w') \<Longrightarrow> is_Exception e"
  by (auto simp: read_input_def read_def unpack_i_def Let_def
      split: option.splits sum.splits prod.splits if_splits)

lemma write_output_Exception:
  "write_output w output_file cnt dim data = (Inl e, w') \<Longrightarrow> is_Exception e"
  by (auto simp: write_output_def pack_I_def Let_def split: if_splits)

lemma write_output_files_other:
  "write_output w output_file cnt dim data = (r, w') \<Longrightarrow> p \<noteq> output_file
     \<Longrightarrow> files w' p = files w p"
  by (auto simp: write_output_def Let_def split: sum.splits)

lemma convert_cases:
  assumes "convert_bin_to_fbin w input_file output_file data_type = (r, w')"
  obtains (read_fails) e where "r = Inl e"
      and "read_input (print (Converting input_file output_file) w) input_file data_type = (Inl e, w')"
    | (write_fails) e dim cnt data w1 where "r = Inl e"
      and "read_input (print (Converting input_file output_file) w) input_file data_type
             = (Inr (dim, cnt, data), w1)"
      and "write_output w1 output_file cnt dim data = (Inl e, w')"
    | (succeeds) dim cnt data w1 w2 where "r = Inr ()"
      and "read_input (print (Converting input_file output_file) w) input_file data_type
             = (Inr (dim, cnt, data), w1)"
      and "write_output w1 output_file cnt dim data = (Inr (), w2)"
      and "w' = print Conversion_successful (print (Output_format cnt dim) w2)"
  using assms
  by (auto simp: convert_bin_to_fbin_def Let_def split: prod.splits sum.splits)

lemma convert_Exception:
  assumes "convert_bin_to_fbin w input_file output_file data_type = (Inl e, w')"
  shows "is_Exception e"
  using assms
proof (cases rule: convert_cases)
  case (read_fails e')
  then show ?thesis using read_input_Exception by auto
next
  case (write_fails e' dim cnt data w1)
  then show ?thesis using write_output_Exception by auto
next
  case (succeeds dim cnt data w1 w2)
  then show ?thesis by simp
qed

lemma convert_files_other:
  assumes "convert_bin_to_fbin w input_file output_file data_type = (r, w')"
    and "p \<noteq> output_file"
  shows "files w' p = files w p"
  using assms(1)
proof (cases rule: convert_cases)
  case (read_fails e)
  then show ?thesis using read_input_files by fastforce
next
  case (write_fails e dim cnt data w1)
  then show ?thesis
    using read_input_files [of _ input_file data_type _ w1]
      write_output_files_other [of w1 output_file cnt dim data _ w' p] assms(2) by fastforce
next
  case (succeeds dim cnt data w1 w2)
  then show ?thesis
    using read_input_files [of _ input_file data_type _ w1]
      write_output_files_other [of w1 output_file cnt dim data _ w2 p] assms(2) by fastforce
qed

text \<open>Unfolding a conversion on a concrete world.\<close>

lemmas convert_defs = convert_bin_to_fbin_def read_input_def read_def sys_maxsize_def unpack_i_def
  to_signed32_def element_size_def pack_I_def write_output_def print_def put_def Let_def le_bytes_4

section \<open>Validation before writing\<close>

text \<open>
  Claim C4. A conversion that raises the data-size mismatch of line 43 has raised inside the
  first \<open>with\<close> block, before \<open>open(output_file, 'wb')\<close>: the files after it are the files
  before it, so the failing conversion creates no destination file and writes to none.
\<close>

theorem mismatch_before_write:
  assumes "convert_bin_to_fbin w input_file output_file data_type
             = (Inl (Data_size_mismatch e g), w')"
  shows "files w' = files w"
proof (cases "read_input (print (Converting input_file output_file) w) input_file data_type")
  case (Pair r w1)
  have fw1: "files w1 = files w" using read_input_files [OF Pair] by simp
  show ?thesis
  proof (cases r)
    case (Inl e')
    with Pair assms fw1 show ?thesis by (simp add: convert_bin_to_fbin_def Let_def)
  next
    case (Inr t)
    obtain dim cnt data where t: "t = (dim, cnt, data)" by (cases t) auto
    from Pair Inr t assms
    have "fst (write_output w1 output_file cnt dim data) = Inl (Data_size_mismatch e g)"
      by (simp add: convert_bin_to_fbin_def Let_def split: prod.splits sum.splits)
    then show ?thesis
      by (simp add: write_output_def pack_I_def Let_def split: if_splits)
  qed
qed

theorem mismatch_before_write_witness:
  "fst (convert_bin_to_fbin truncated_world [''src''] [''dst''] ''f'') = Inl (Data_size_mismatch 16 12)
   \<and> files (snd (convert_bin_to_fbin truncated_world [''src''] [''dst''] ''f'')) = files truncated_world
   \<and> files truncated_world [''dst''] = None"
proof -
  have h: "convert_bin_to_fbin truncated_world [''src''] [''dst''] ''f''
      = (Inl (Data_size_mismatch 16 12),
         truncated_world\<lparr>stdout := [Converting [''src''] [''dst''], Input_format 4 1]\<rparr>)"
    by (simp add: truncated_world_def convert_defs)
  have "files truncated_world [''dst''] = None" by (simp add: truncated_world_def)
  with mismatch_before_write [OF h] h show ?thesis by simp
qed

section \<open>Header words with the high bit set\<close>

text \<open>
  Claim C9. The header words are read with the code \<open>'i'\<close>, as signed 32-bit integers. If the
  first or the second word of the input file encodes a value from \<open>2^31\<close> to \<open>2^32 - 1\<close>, that
  word decodes to a negative number, and the conversion raises an exception whatever the
  rest of the file is: it never returns normally.
\<close>

theorem signed_header_raises:
  assumes f: "files w input_file = Some f"
    and big: "2147483648 \<le> le_uint (take 4 f) \<or> 2147483648 \<le> le_uint (take 4 (drop 4 f))"
  shows "(2147483648 \<le> le_uint (take 4 f) \<longrightarrow> (\<exists>v. unpack_i (take 4 f) = Inr v \<and> v < 0))
       \<and> (2147483648 \<le> le_uint (take 4 (drop 4 f))
            \<longrightarrow> (\<exists>v. unpack_i (take 4 (drop 4 f)) = Inr v \<and> v < 0))
       \<and> (\<exists>e w'. convert_bin_to_fbin w input_file output_file data_type = (Inl e, w'))"
proof (intro conjI impI)
  assume a: "2147483648 \<le> le_uint (take 4 f)"
  have l: "length (take 4 f) = 4" using le_uint_take_4 [OF a] by simp
  show "\<exists>v. unpack_i (take 4 f) = Inr v \<and> v < 0"
    using unpack_i_4 [OF l] to_signed32_negative [OF a le_uint_4_less [OF l]] by simp
next
  assume a: "2147483648 \<le> le_uint (take 4 (drop 4 f))"
  have l: "length (take 4 (drop 4 f)) = 4" using le_uint_take_4 [OF a] by simp
  show "\<exists>v. unpack_i (take 4 (drop 4 f)) = Inr v \<and> v < 0"
    using unpack_i_4 [OF l] to_signed32_negative [OF a le_uint_4_less [OF l]] by simp
next
  show "\<exists>e w'. convert_bin_to_fbin w input_file output_file data_type = (Inl e, w')"
  proof (cases "length f < 8")
    case True
    from convert_short_file [OF f True] show ?thesis by blast
  next
    case False
    then have len: "8 \<le> length f" by simp
    note sp = split_header [OF len]
    have f': "files w input_file = Some (take 4 f @ take 4 (drop 4 f) @ drop 8 f)"
      using f sp(1) by simp
    have "to_signed32 (le_uint (take 4 f)) < 0 \<or> to_signed32 (le_uint (take 4 (drop 4 f))) < 0"
      using big to_signed32_negative le_uint_4_less [OF sp(2)] le_uint_4_less [OF sp(3)] by blast
    from convert_negative_header [OF f' sp(2) sp(3) this] show ?thesis .
  qed
qed

theorem signed_header_raises_witness:
  "le_uint (take 4 [0, 0, 0, 128, 0, 0, 0, 0]) = 2147483648
   \<and> (\<exists>v. unpack_i [0, 0, 0, 128] = Inr v \<and> v < 0)
   \<and> (\<exists>e w'. convert_bin_to_fbin high_bit_world [''src''] [''dst''] ''f'' = (Inl e, w'))"
  using signed_header_raises [of high_bit_world "[''src'']" "[0, 0, 0, 128, 0, 0, 0, 0]"
      "[''dst'']" "''f''"]
  by (simp add: high_bit_world_def)

section \<open>The summary\<close>

text \<open>
  Claim C8. For a non-empty list of parsed records, the summarizer prints the table rows and
  writes the rows of \<open>summary.csv\<close> for the same list \<open>rs\<close>: the records sorted ascending by
  \<open>threads\<close>, each record once. The first line of the file is the five column names
  \<open>Concurrency\<close>, \<open>QPS\<close>, \<open>Recall\<close>, \<open>Latency_ms\<close>, \<open>Total_Queries\<close> separated by commas, and
  each row is the five fields of its record separated by commas.
\<close>

theorem summary_sorted:
  assumes "results \<noteq> []"
  shows "\<exists>rs. summarize fmt zero results =
            Inr (table_header # replicate 80 CHR ''-'' # map (table_row fmt zero) rs,
                 csv_header @ concat (map (csv_row fmt zero) rs))
          \<and> sorted (map threads rs) \<and> mset rs = mset results
          \<and> csv_header = join '',''
                [''Concurrency'', ''QPS'', ''Recall'', ''Latency_ms'', ''Total_Queries''] @ [CHR 0x0A]
          \<and> (\<forall>r \<in> set rs. csv_row fmt zero r =
                join '','' [str_int (threads r), fmt 2 (get (qps r) zero),
                           fmt 4 (get (recall r) zero), fmt 3 (get (latency r) zero),
                           str_int (get (total_queries r) 0)] @ [CHR 0x0A])"
proof -
  let ?rs = "sort_key threads results"
  have "summarize fmt zero results =
            Inr (table_header # replicate 80 CHR ''-'' # map (table_row fmt zero) ?rs,
                 csv_header @ concat (map (csv_row fmt zero) ?rs))"
    using assms by (simp add: summarize_def Let_def)
  moreover have "sorted (map threads ?rs)" by simp
  moreover have "mset ?rs = mset results" by simp
  moreover have "csv_header = join '',''
      [''Concurrency'', ''QPS'', ''Recall'', ''Latency_ms'', ''Total_Queries''] @ [CHR 0x0A]"
    by (simp add: csv_header_def)
  moreover have "\<forall>r \<in> set ?rs. csv_row fmt zero r =
                join '','' [str_int (threads r), fmt 2 (get (qps r) zero),
                           fmt 4 (get (recall r) zero), fmt 3 (get (latency r) zero),
                           str_int (get (total_queries r) 0)] @ [CHR 0x0A]"
    by (simp add: csv_row_def)
  ultimately show ?thesis by blast
qed

theorem summary_sorted_witness:
  "[\<lparr>threads = 4, qps = Some (10 :: nat), recall = None, latency = Some 3, total_queries = Some 100\<rparr>,
    \<lparr>threads = 1, qps = Some 7, recall = None, latency = Some 3, total_queries = None\<rparr>] \<noteq> []
   \<and> (\<exists>rs. summarize (\<lambda>k. str_nat) 0
          [\<lparr>threads = 4, qps = Some (10 :: nat), recall = None, latency = Some 3, total_queries = Some 100\<rparr>,
           \<lparr>threads = 1, qps = Some 7, recall = None, latency = Some 3, total_queries = None\<rparr>]
        = Inr (table_header # replicate 80 CHR ''-'' # map (table_row (\<lambda>k. str_nat) 0) rs,
               csv_header @ concat (map (csv_row (\<lambda>k. str_nat) 0) rs))
      \<and> sorted (map threads rs))"
  using summary_sorted [of
      "[\<lparr>threads = 4, qps = Some (10 :: nat), recall = None, latency = Some 3, total_queries = Some 100\<rparr>,
        \<lparr>threads = 1, qps = Some 7, recall = None, latency = Some 3, total_queries = None\<rparr>]"
      "\<lambda>k. str_nat" 0]
  by blast

section \<open>The header\<close>

text \<open>
  Claim C1, as amended. For every pair \<open>(dimension, count)\<close> of integers from 0 to
  \<open>2^31 - 1\<close> and every input file that begins with the internal-layout header built from
  them:
  \<^item> the first \<open>with\<close> block decodes the two words to \<open>dim = dimension\<close> and
    \<open>count = count\<close> (it prints them so, whatever follows the header);
  \<^item> the second \<open>with\<close> block, given these two values, writes an 8-byte header whose first
    word is \<open>count\<close> and whose second word is \<open>dimension\<close>;
  \<^item> when the file carries the payload the header declares, of a length a read gets, the
    conversion writes that header, and the payload after it, to the destination.
\<close>

theorem header_round_trip:
  assumes d: "0 \<le> dimension" "dimension < 2147483648"
    and c: "0 \<le> cnt" "cnt < 2147483648"
    and f: "files w input_file = Some (le_bytes 4 dimension @ le_bytes 4 cnt @ P)"
  shows "stdout (snd (read_input w input_file data_type)) = stdout w @ [Input_format dimension cnt]
       \<and> write_output w output_file cnt dimension data
           = (Inr (), w\<lparr>files := (files w)(output_file \<mapsto>
                              le_bytes 4 cnt @ le_bytes 4 dimension @ data)\<rparr>)
       \<and> (int (length P) = dimension * cnt * element_size data_type
            \<and> int (length P) \<le> sys_maxsize - 33
            \<and> (length P \<le> 4 \<or> length P \<le> memory w) \<longrightarrow>
          (\<exists>w'. convert_bin_to_fbin w input_file output_file data_type = (Inr (), w')
             \<and> files w' output_file = Some (le_bytes 4 cnt @ le_bytes 4 dimension @ P)))
       \<and> length (le_bytes 4 cnt @ le_bytes 4 dimension) = 8
       \<and> le_uint (le_bytes 4 cnt) = cnt \<and> le_uint (le_bytes 4 dimension) = dimension"
proof -
  have l: "length (le_bytes 4 dimension) = 4" "length (le_bytes 4 cnt) = 4"
    by (simp_all add: length_le_bytes)
  have u: "le_uint (le_bytes 4 dimension) = dimension" "le_uint (le_bytes 4 cnt) = cnt"
    using d c by (simp_all add: le_uint_le_bytes)
  have sg: "to_signed32 (le_uint (le_bytes 4 dimension)) = dimension"
    "to_signed32 (le_uint (le_bytes 4 cnt)) = cnt"
    using u d c by (simp_all add: to_signed32_small)
  have decode: "stdout (snd (read_input w input_file data_type))
      = stdout w @ [Input_format dimension cnt]"
    using read_input_header [OF f l, of data_type] sg
    by (simp add: Let_def print_def split: sum.splits prod.splits)
  have pc: "pack_I cnt = Inr (le_bytes 4 cnt)" and pd: "pack_I dimension = Inr (le_bytes 4 dimension)"
    using d c by (simp_all add: pack_I_def)
  have encode: "write_output w output_file cnt dimension data
           = (Inr (), w\<lparr>files := (files w)(output_file \<mapsto>
                              le_bytes 4 cnt @ le_bytes 4 dimension @ data)\<rparr>)"
    using write_output_ok [OF pc pd] .
  have whole: "\<exists>w'. convert_bin_to_fbin w input_file output_file data_type = (Inr (), w')
             \<and> files w' output_file = Some (le_bytes 4 cnt @ le_bytes 4 dimension @ P)"
    if wf: "int (length P) = dimension * cnt * element_size data_type"
      and fits: "int (length P) \<le> sys_maxsize - 33"
      and mem: "length P \<le> 4 \<or> length P \<le> memory w"
  proof -
    have s: "le_uint (le_bytes 4 dimension) < 2147483648" "le_uint (le_bytes 4 cnt) < 2147483648"
      using u d c by simp_all
    have ds: "int (length P)
        = le_uint (le_bytes 4 dimension) * le_uint (le_bytes 4 cnt) * element_size data_type"
      using wf u by simp
    have m: "int (length P) \<le> 4 \<or> int (length P) \<le> int (memory w)" using mem by auto
    show ?thesis
      using convert_ok [OF f l s ds order_refl fits m, of output_file] by simp
  qed
  show ?thesis using decode encode whole l u by simp
qed

theorem header_round_trip_witness:
  "\<exists>w'. convert_bin_to_fbin six_floats_world [''src''] [''dst''] ''f'' = (Inr (), w')
     \<and> files w' [''dst''] = Some ([3, 0, 0, 0] @ [2, 0, 0, 0] @ six_floats)"
proof -
  have f: "files six_floats_world [''src''] = Some (le_bytes 4 2 @ le_bytes 4 3 @ six_floats)"
    by (simp add: six_floats_world_def le_bytes_4)
  have p: "int (length six_floats) = 2 * 3 * element_size ''f''
            \<and> int (length six_floats) \<le> sys_maxsize - 33
            \<and> (length six_floats \<le> 4 \<or> length six_floats \<le> memory six_floats_world)"
    by (simp add: six_floats_def six_floats_world_def element_size_def sys_maxsize_def)
  from header_round_trip [of 2 3 six_floats_world "[''src'']" six_floats "''f''" "[''dst'']", OF _ _ _ _ f] p
  show ?thesis by (simp add: le_bytes_4)
qed

text \<open>
  The claim as the specification has it, for all unsigned 32-bit values, fails at
  \<open>dimension = 0\<close>, \<open>count = 2^31\<close>: the 8-byte file with this header (and the empty payload
  it declares) decodes to \<open>count = - 2^31\<close>, the destination is opened, and
  \<open>struct.pack('I', count)\<close> raises; no header is written.
\<close>

theorem header_round_trip_counterexample:
  "files high_count_world [''src''] = Some (le_bytes 4 0 @ le_bytes 4 2147483648 @ [])
   \<and> unpack_i (le_bytes 4 2147483648) = Inr (- 2147483648)
   \<and> fst (convert_bin_to_fbin high_count_world [''src''] [''dst''] ''f'') = Inl Struct_error
   \<and> files (snd (convert_bin_to_fbin high_count_world [''src''] [''dst''] ''f'')) [''dst'']
       = Some []"
  by (simp add: high_count_world_def convert_defs)

text \<open>
  Claim C7. The header is written with the code \<open>'I'\<close>: writing succeeds exactly when
  \<open>count\<close> and \<open>dim\<close> both lie between 0 and \<open>2^32 - 1\<close>, and raises \<open>struct.error\<close> for any
  other value; when it succeeds the two words written read back as \<open>count\<close> and \<open>dim\<close>
  themselves, so no value is cut down to 32 bits.
\<close>

theorem pack_range_checked:
  "fst (write_output w output_file cnt dim data) =
      (if 0 \<le> cnt \<and> cnt \<le> 4294967295 \<and> 0 \<le> dim \<and> dim \<le> 4294967295
       then Inr () else Inl Struct_error)
   \<and> (fst (write_output w output_file cnt dim data) = Inr () \<longrightarrow>
        (\<exists>h1 h2. files (snd (write_output w output_file cnt dim data)) output_file
                    = Some (h1 @ h2 @ data)
          \<and> length h1 = 4 \<and> length h2 = 4 \<and> le_uint h1 = cnt \<and> le_uint h2 = dim))"
proof (cases "0 \<le> cnt \<and> cnt \<le> 4294967295 \<and> 0 \<le> dim \<and> dim \<le> 4294967295")
  case True
  then have pc: "pack_I cnt = Inr (le_bytes 4 cnt)" and pd: "pack_I dim = Inr (le_bytes 4 dim)"
    by (simp_all add: pack_I_def)
  have "le_uint (le_bytes 4 cnt) = cnt" "le_uint (le_bytes 4 dim) = dim"
    using True by (simp_all add: le_uint_le_bytes)
  then have "\<exists>h1 h2. Some (le_bytes 4 cnt @ le_bytes 4 dim @ data) = Some (h1 @ h2 @ data)
      \<and> length h1 = 4 \<and> length h2 = 4 \<and> le_uint h1 = cnt \<and> le_uint h2 = dim"
    by (intro exI [of _ "le_bytes 4 cnt"] exI [of _ "le_bytes 4 dim"]) (simp add: length_le_bytes)
  then show ?thesis
    using True write_output_ok [OF pc pd, of w output_file data] by simp
next
  case False
  then have "\<not> (0 \<le> cnt \<and> cnt \<le> 4294967295) \<or> \<not> (0 \<le> dim \<and> dim \<le> 4294967295)" by auto
  from write_output_fails [OF this, of w output_file data] show ?thesis using False by auto
qed

theorem pack_range_checked_witness:
  "fst (write_output high_bit_world [''dst''] 4294967296 2 []) = Inl Struct_error
   \<and> fst (write_output high_bit_world [''dst''] 3 (- 1) []) = Inl Struct_error
   \<and> fst (write_output high_bit_world [''dst''] 4294967295 2 []) = Inr ()"
  using pack_range_checked [of high_bit_world "[''dst'']" 4294967296 2 "[]"]
    pack_range_checked [of high_bit_world "[''dst'']" 3 "- 1" "[]"]
    pack_range_checked [of high_bit_world "[''dst'']" 4294967295 2 "[]"]
  by simp

section \<open>The payload\<close>

text \<open>
  Claim C2, as amended. For every input file made of an 8-byte header whose two words are
  both below \<open>2^31\<close> and a payload \<open>P\<close> of exactly \<open>dimension * count * element_size\<close> bytes,
  of a length a read gets (at most \<open>sys.maxsize - 33\<close> bytes, and at most \<open>memory\<close> or four),
  the conversion succeeds and the output file is the two header words in the other order
  followed by \<open>P\<close>: its bytes from offset 8 on are \<open>P\<close>.
\<close>

theorem payload_preserved:
  assumes f: "files w input_file = Some (h1 @ h2 @ P)"
    and l1: "length h1 = 4" and l2: "length h2 = 4"
    and s1: "le_uint h1 < 2147483648" and s2: "le_uint h2 < 2147483648"
    and wf: "int (length P) = le_uint h1 * le_uint h2 * element_size data_type"
    and fits: "int (length P) \<le> sys_maxsize - 33"
    and mem: "length P \<le> 4 \<or> length P \<le> memory w"
  shows "\<exists>w'. convert_bin_to_fbin w input_file output_file data_type = (Inr (), w')
           \<and> files w' = (files w)(output_file \<mapsto> h2 @ h1 @ P)
           \<and> drop 8 (h2 @ h1 @ P) = P"
proof -
  have m: "int (length P) \<le> 4 \<or> int (length P) \<le> int (memory w)" using mem by auto
  show ?thesis
    using convert_ok [OF f l1 l2 s1 s2 wf order_refl fits m, of output_file] l1 l2 by simp
qed

theorem payload_preserved_witness:
  "\<exists>w'. convert_bin_to_fbin
       \<lparr>files = [[''src''] \<mapsto> [2, 0, 0, 0] @ [1, 0, 0, 0] @ [0, 0, 128, 63, 0, 0, 128, 63]],
        stdout = [], memory = 1024\<rparr>
       [''src''] [''dst''] ''f'' = (Inr (), w')
     \<and> files w' [''dst''] = Some ([1, 0, 0, 0] @ [2, 0, 0, 0] @ [0, 0, 128, 63, 0, 0, 128, 63])"
  using payload_preserved [of
     "\<lparr>files = [[''src''] \<mapsto> [2, 0, 0, 0] @ [1, 0, 0, 0] @ [0, 0, 128, 63, 0, 0, 128, 63]],
       stdout = [], memory = 1024\<rparr>"
     "[''src'']" "[2, 0, 0, 0]" "[1, 0, 0, 0]" "[0, 0, 128, 63, 0, 0, 128, 63]" "''f''" "[''dst'']"]
  by (auto simp add: element_size_def sys_maxsize_def)

text \<open>
  Without the bound on the header words the claim fails: the 8-byte file with the words
  \<open>0x80000000\<close> and 0 has the empty payload its header declares, and its conversion raises
  \<open>struct.error\<close>, after the destination was opened and the count written.
\<close>

theorem payload_preserved_counterexample:
  "files high_bit_world [''src''] = Some (le_bytes 4 2147483648 @ le_bytes 4 0 @ [])
   \<and> int (length ([] :: bytes)) = 2147483648 * 0 * element_size ''f''
   \<and> fst (convert_bin_to_fbin high_bit_world [''src''] [''dst''] ''f'') = Inl Struct_error
   \<and> files (snd (convert_bin_to_fbin high_bit_world [''src''] [''dst''] ''f'')) [''dst'']
       = Some [0, 0, 0, 0]"
  by (simp add: high_bit_world_def convert_defs)

text \<open>
  Claim C3, as amended. For every source file with fewer bytes after the 8-byte header than
  \<open>dim * count * element_size\<close> (the header words read as signed 32-bit integers), the
  conversion raises and leaves every file as it was: nothing is truncated or padded. The
  exception is the data-size mismatch of line 43, with the expected and the actual size,
  whenever a read of the declared size gets its byte string; \<open>f.read\<close> raises
  \<open>OverflowError\<close> for a declared size from \<open>sys.maxsize - 32\<close> on and \<open>MemoryError\<close> for
  one beyond what the allocator gives.
\<close>

theorem truncated_rejected:
  assumes "files w input_file = Some (h1 @ h2 @ P)"
    and "length h1 = 4" and "length h2 = 4"
    and "data_size = to_signed32 (le_uint h1) * to_signed32 (le_uint h2) * element_size data_type"
    and "int (length P) < data_size"
  shows "\<exists>w'. convert_bin_to_fbin w input_file output_file data_type
             = (Inl (if sys_maxsize - 33 < data_size then OverflowError
                     else if 4 < data_size \<and> int (memory w) < data_size then MemoryError
                     else Data_size_mismatch data_size (length P)), w')
           \<and> files w' = files w"
  using assms by (rule convert_short_payload)

theorem truncated_rejected_witness:
  "\<exists>w'. convert_bin_to_fbin truncated_world [''src''] [''dst''] ''f''
             = (Inl (Data_size_mismatch 16 12), w')
           \<and> files w' = files truncated_world"
proof -
  have len: "length [1, 2, 3, 4, 5, 6, 7, 8, 9, 10, 11, 12 :: byte] = 12" by simp
  have f: "files truncated_world [''src'']
      = Some ([4, 0, 0, 0] @ [1, 0, 0, 0] @ [1, 2, 3, 4, 5, 6, 7, 8, 9, 10, 11, 12])"
    by (simp add: truncated_world_def)
  have ds: "(16 :: int) = to_signed32 (le_uint [4, 0, 0, 0]) * to_signed32 (le_uint [1, 0, 0, 0])
      * element_size ''f''"
    by (simp add: to_signed32_def element_size_def)
  have short: "int (length [1, 2, 3, 4, 5, 6, 7, 8, 9, 10, 11, 12 :: byte]) < 16" by simp
  have e: "(if sys_maxsize - 33 < 16 then OverflowError
            else if 4 < (16 :: int) \<and> int (memory truncated_world) < 16 then MemoryError
            else Data_size_mismatch 16 12) = Data_size_mismatch 16 12"
    by (simp add: sys_maxsize_def truncated_world_def)
  from truncated_rejected [OF f _ _ ds short, of "[''dst'']"]
  show ?thesis unfolding len e by simp
qed

text \<open>
  A file that is too long is not rejected: \<open>f.read(data_size)\<close> returns the first
  \<open>data_size\<close> bytes, the check of line 42 passes, and the output carries the payload
  without its last byte.
\<close>

theorem truncated_rejected_counterexample:
  "fst (convert_bin_to_fbin overlong_world [''src''] [''dst''] ''f'') = Inr ()
   \<and> files (snd (convert_bin_to_fbin overlong_world [''src''] [''dst''] ''f'')) [''dst'']
       = Some [1, 0, 0, 0, 1, 0, 0, 0, 9, 8, 7, 6]
   \<and> files overlong_world [''src''] = Some ([1, 0, 0, 0] @ [1, 0, 0, 0] @ [9, 8, 7, 6, 5])
   \<and> int (length [9, 8, 7, 6, 5 :: byte]) \<noteq> 1 * 1 * element_size ''f''"
  by (simp add: overlong_world_def convert_defs)

text \<open>
  Claim C10. For every input file of exactly 8 bytes whose two header words decode to
  nonnegative values \<open>dim\<close> and \<open>count\<close> with \<open>dim * count = 0\<close>, the conversion succeeds and
  the destination file is the 8 bytes of the header with its two words exchanged, and
  nothing after them.
\<close>

theorem empty_payload:
  assumes f: "files w input_file = Some f" and len: "length f = 8"
    and d: "unpack_i (take 4 f) = Inr dim" and c: "unpack_i (drop 4 f) = Inr cnt"
    and nn: "0 \<le> dim" "0 \<le> cnt" and z: "dim * cnt = 0"
  shows "\<exists>w'. convert_bin_to_fbin w input_file output_file data_type = (Inr (), w')
           \<and> files w' = (files w)(output_file \<mapsto> drop 4 f @ take 4 f)
           \<and> length (drop 4 f @ take 4 f) = 8"
proof -
  have l1: "length (take 4 f) = 4" and l2: "length (drop 4 f) = 4" using len by simp_all
  have f': "files w input_file = Some (take 4 f @ drop 4 f @ [])" using f by simp
  have u1: "0 \<le> le_uint (take 4 f)" "le_uint (take 4 f) < 4294967296"
    using le_uint_nonneg le_uint_4_less [OF l1] by simp_all
  have u2: "0 \<le> le_uint (drop 4 f)" "le_uint (drop 4 f) < 4294967296"
    using le_uint_nonneg le_uint_4_less [OF l2] by simp_all
  have s1: "le_uint (take 4 f) < 2147483648"
    using d nn(1) u1 unpack_i_4 [OF l1] by (simp add: to_signed32_def split: if_splits)
  have s2: "le_uint (drop 4 f) < 2147483648"
    using c nn(2) u2 unpack_i_4 [OF l2] by (simp add: to_signed32_def split: if_splits)
  have "dim = le_uint (take 4 f)" "cnt = le_uint (drop 4 f)"
    using d c unpack_i_4 [OF l1] unpack_i_4 [OF l2]
      to_signed32_small [OF s1] to_signed32_small [OF s2]
    by simp_all
  then have ds: "0 = le_uint (take 4 f) * le_uint (drop 4 f) * element_size data_type"
    using z by simp
  have "convert_bin_to_fbin w input_file output_file data_type =
     (Inr (), w\<lparr>files := (files w)(output_file \<mapsto> drop 4 f @ take 4 f @ take (nat 0) []),
               stdout := stdout w @ [Converting input_file output_file,
                  Input_format (le_uint (take 4 f)) (le_uint (drop 4 f)),
                  Output_format (le_uint (drop 4 f)) (le_uint (take 4 f)), Conversion_successful]\<rparr>)"
    by (rule convert_ok [OF f' l1 l2 s1 s2 ds]) (simp_all add: sys_maxsize_def)
  then show ?thesis using len by simp
qed

theorem empty_payload_witness:
  "\<exists>w'. convert_bin_to_fbin \<lparr>files = [[''src''] \<mapsto> [0, 3, 0, 0, 0, 0, 0, 0]], stdout = [], memory = 1024\<rparr>
       [''src''] [''dst''] ''q'' = (Inr (), w')
     \<and> files w' [''dst''] = Some [0, 0, 0, 0, 0, 3, 0, 0]"
  using empty_payload [of "\<lparr>files = [[''src''] \<mapsto> [0, 3, 0, 0, 0, 0, 0, 0]], stdout = [], memory = 1024\<rparr>"
      "[''src'']" "[0, 3, 0, 0, 0, 0, 0, 0]" 768 0 "[''dst'']" "''q''"]
  by (auto simp add: unpack_i_def to_signed32_def)

section \<open>The batch\<close>

lemma main_loop_append:
  "main_loop input_dir output_dir (pre @ post) w =
     (case main_loop input_dir output_dir pre w of
        (Inl e, w') \<Rightarrow> (Inl e, w')
      | (Inr u, w') \<Rightarrow> main_loop input_dir output_dir post w')"
proof (induction pre arbitrary: w)
  case Nil
  show ?case by simp
next
  case (Cons entry pre)
  obtain input_name output_name dtype where entry: "entry = (input_name, output_name, dtype)"
    by (cases entry) auto
  show ?case
    by (simp add: entry Cons.IH Let_def split: prod.splits sum.splits)
qed

text \<open>
  What the loop prints: a conversion prints its \<open>Converting\<close> line first; a loop that ends
  normally has printed, for every entry, the warning or the \<open>Converting\<close> line; a loop that
  exits has exited with status 1 on a conversion that raised.
\<close>

lemma stdout_print: "stdout (print l w) = stdout w @ [l]"
  by (simp add: print_def)

lemma read_input_stdout:
  "read_input w input_file data_type = (r, w') \<Longrightarrow> \<exists>ls. stdout w' = stdout w @ ls"
  by (auto simp: read_input_def stdout_print Let_def
      split: option.splits sum.splits prod.splits if_splits)

lemma write_output_stdout:
  "write_output w output_file cnt dim data = (r, w') \<Longrightarrow> stdout w' = stdout w"
  by (auto simp: write_output_def Let_def split: sum.splits)

lemma convert_stdout:
  assumes "convert_bin_to_fbin w input_file output_file data_type = (r, w')"
  shows "\<exists>ls. stdout w' = stdout w @ Converting input_file output_file # ls"
  using assms
proof (cases rule: convert_cases)
  case (read_fails e)
  then show ?thesis using read_input_stdout [OF read_fails(2)] by (auto simp: stdout_print)
next
  case (write_fails e dim cnt data w1)
  then show ?thesis
    using read_input_stdout [OF write_fails(2)] write_output_stdout [OF write_fails(3)]
    by (auto simp: stdout_print)
next
  case (succeeds dim cnt data w1 w2)
  then show ?thesis
    using read_input_stdout [OF succeeds(2)] write_output_stdout [OF succeeds(3)]
    by (auto simp: stdout_print)
qed

lemma main_loop_completes:
  "main_loop input_dir output_dir es w = (Inr (), w') \<Longrightarrow>
     \<exists>ls. stdout w' = stdout w @ ls
       \<and> (\<forall>n o' d. (n, o', d) \<in> set es \<longrightarrow>
             Warning_not_found n \<in> set ls
           \<or> Converting (input_dir @ [n]) (output_dir @ [o']) \<in> set ls)"
proof (induction es arbitrary: w)
  case Nil
  then show ?case by simp
next
  case (Cons entry es)
  obtain input_name output_name dtype where entry: "entry = (input_name, output_name, dtype)"
    by (cases entry) auto
  show ?case
  proof (cases "files w (input_dir @ [input_name]) = None")
    case True
    then have "main_loop input_dir output_dir es (print (Warning_not_found input_name) w) = (Inr (), w')"
      using Cons.prems entry by simp
    from Cons.IH [OF this] obtain ls where
      ls: "stdout w' = stdout (print (Warning_not_found input_name) w) @ ls"
        "\<forall>n o' d. (n, o', d) \<in> set es \<longrightarrow>
             Warning_not_found n \<in> set ls
           \<or> Converting (input_dir @ [n]) (output_dir @ [o']) \<in> set ls"
      by blast
    show ?thesis
      by (rule exI [of _ "Warning_not_found input_name # ls"]) (use ls entry in \<open>auto simp: stdout_print\<close>)
  next
    case False
    obtain r w1 where c: "convert_bin_to_fbin w (input_dir @ [input_name])
        (output_dir @ [output_name]) dtype = (r, w1)"
      by (cases "convert_bin_to_fbin w (input_dir @ [input_name]) (output_dir @ [output_name]) dtype")
    from convert_stdout [OF c] obtain l1 where
      l1: "stdout w1 = stdout w @ Converting (input_dir @ [input_name]) (output_dir @ [output_name]) # l1"
      by blast
    have r: "r = Inr ()" and rest: "main_loop input_dir output_dir es (print Blank w1) = (Inr (), w')"
      using Cons.prems entry False c by (auto simp: Let_def split: sum.splits if_splits)
    from Cons.IH [OF rest] obtain ls where
      ls: "stdout w' = stdout (print Blank w1) @ ls"
        "\<forall>n o' d. (n, o', d) \<in> set es \<longrightarrow>
             Warning_not_found n \<in> set ls
           \<or> Converting (input_dir @ [n]) (output_dir @ [o']) \<in> set ls"
      by blast
    show ?thesis
      by (rule exI [of _ "Converting (input_dir @ [input_name]) (output_dir @ [output_name])
            # l1 @ Blank # ls"]) (use ls l1 entry in \<open>auto simp: stdout_print\<close>)
  qed
qed

lemma main_loop_aborts:
  "main_loop input_dir output_dir es w = (Inl x, w') \<Longrightarrow>
     x = SystemExit 1
     \<and> (\<exists>n o' d e w1 w2. (n, o', d) \<in> set es \<and> files w1 (input_dir @ [n]) \<noteq> None
          \<and> convert_bin_to_fbin w1 (input_dir @ [n]) (output_dir @ [o']) d = (Inl e, w2)
          \<and> w' = print (Error_converting n e) w2)"
proof (induction es arbitrary: w)
  case Nil
  then show ?case by simp
next
  case (Cons entry es)
  obtain input_name output_name dtype where entry: "entry = (input_name, output_name, dtype)"
    by (cases entry) auto
  show ?case
  proof (cases "files w (input_dir @ [input_name]) = None")
    case True
    then have "main_loop input_dir output_dir es (print (Warning_not_found input_name) w) = (Inl x, w')"
      using Cons.prems entry by simp
    from Cons.IH [OF this] show ?thesis by (simp add: entry) blast
  next
    case False
    obtain r w1 where c: "convert_bin_to_fbin w (input_dir @ [input_name])
        (output_dir @ [output_name]) dtype = (r, w1)"
      by (cases "convert_bin_to_fbin w (input_dir @ [input_name]) (output_dir @ [output_name]) dtype")
    show ?thesis
    proof (cases r)
      case (Inl e)
      have ex: "is_Exception e" using c Inl convert_Exception by blast
      have xw: "x = SystemExit 1" "w' = print (Error_converting input_name e) w1"
        using Cons.prems entry False c Inl ex by (auto simp: Let_def)
      have mem: "(input_name, output_name, dtype) \<in> set (entry # es)" using entry by simp
      have c': "convert_bin_to_fbin w (input_dir @ [input_name]) (output_dir @ [output_name]) dtype
          = (Inl e, w1)" using c Inl by simp
      show ?thesis using xw mem c' False by blast
    next
      case (Inr u)
      then have "main_loop input_dir output_dir es (print Blank w1) = (Inl x, w')"
        using Cons.prems entry False c by (auto simp: Let_def)
      from Cons.IH [OF this] show ?thesis by (simp add: entry) blast
    qed
  qed
qed

lemma result_pair: "fst x = a \<Longrightarrow> x = (a, snd x)"
  by (cases x) simp

lemma first_entry_converted:
  "fst (main_loop [''in''] [''out'']
          [(''openai_500k_train_vectors.bin'', ''openai500k_base.fbin'', ''f'')]
          (batch_world q)) = Inr ()"
  by (simp add: batch_world_def convert_defs)

lemma first_entry_files:
  "files (snd (main_loop [''in''] [''out'']
          [(''openai_500k_train_vectors.bin'', ''openai500k_base.fbin'', ''f'')] (batch_world q)))
     = (files (batch_world q))
         ([''out'', ''openai500k_base.fbin''] \<mapsto> [1, 0, 0, 0, 1, 0, 0, 0, 7, 7, 7, 7])"
  by (simp add: batch_world_def convert_defs)

lemma first_entry_run:
  "main_loop [''in''] [''out'']
      [(''openai_500k_train_vectors.bin'', ''openai500k_base.fbin'', ''f'')] (batch_world q)
     = (Inr (), (batch_world q)
          \<lparr>files := (files (batch_world q))
              ([''out'', ''openai500k_base.fbin''] \<mapsto> [1, 0, 0, 0, 1, 0, 0, 0, 7, 7, 7, 7]),
           stdout := [Converting [''in'', ''openai_500k_train_vectors.bin'']
                        [''out'', ''openai500k_base.fbin''],
                      Input_format 1 1, Output_format 1 1, Conversion_successful, Blank]\<rparr>)"
  by (simp add: batch_world_def convert_defs)

text \<open>
  Claim C5. When the loop has run through the entries before an entry whose source file is
  absent, that entry is a skip and nothing more:
  \<^item> the loop up to and including it ends normally, with the warning line for the entry
    printed and every file as it was;
  \<^item> whatever entries follow, the loop goes on with them from that state;
  \<^item> the next entry is attempted: if its source file is there, \<open>convert_bin_to_fbin\<close> is
    called on it in that state, and the batch goes on or exits as that conversion
    returns or raises;
  \<^item> if the batch ends normally, every entry after the skipped one has been attempted: after
    the warning for the skipped entry the output has, for each of them, its own warning
    (source absent) or the \<open>Converting\<close> line that a call of \<open>convert_bin_to_fbin\<close> prints;
  \<^item> if the batch exits, it exits with status 1 because the conversion of a later entry,
    whose source file was there, raised: never because of the absent file.
\<close>

theorem missing_file_skipped:
  assumes pre: "main_loop input_dir output_dir pre w = (Inr (), w1)"
    and absent: "files w1 (input_dir @ [input_name]) = None"
  shows "main_loop input_dir output_dir (pre @ [(input_name, output_name, dtype)]) w
           = (Inr (), print (Warning_not_found input_name) w1)
       \<and> files (print (Warning_not_found input_name) w1) = files w1
       \<and> (\<forall>post. main_loop input_dir output_dir (pre @ (input_name, output_name, dtype) # post) w
             = main_loop input_dir output_dir post (print (Warning_not_found input_name) w1))
       \<and> (\<forall>next_name next_output next_dtype post.
             files w1 (input_dir @ [next_name]) \<noteq> None \<longrightarrow>
             main_loop input_dir output_dir
                (pre @ (input_name, output_name, dtype) # (next_name, next_output, next_dtype) # post) w
               = (case convert_bin_to_fbin (print (Warning_not_found input_name) w1)
                         (input_dir @ [next_name]) (output_dir @ [next_output]) next_dtype of
                    (Inr u, w3) \<Rightarrow> main_loop input_dir output_dir post (print Blank w3)
                  | (Inl e, w3) \<Rightarrow> (Inl (SystemExit 1), print (Error_converting next_name e) w3)))
       \<and> (\<forall>post w'.
             main_loop input_dir output_dir (pre @ (input_name, output_name, dtype) # post) w
               = (Inr (), w') \<longrightarrow>
             (\<exists>ls. stdout w' = stdout w1 @ Warning_not_found input_name # ls
                \<and> (\<forall>n o' d. (n, o', d) \<in> set post \<longrightarrow>
                      Warning_not_found n \<in> set ls
                    \<or> Converting (input_dir @ [n]) (output_dir @ [o']) \<in> set ls)))
       \<and> (\<forall>post x w'.
             main_loop input_dir output_dir (pre @ (input_name, output_name, dtype) # post) w
               = (Inl x, w') \<longrightarrow>
             x = SystemExit 1
             \<and> (\<exists>n o' d e w2 w3. (n, o', d) \<in> set post \<and> files w2 (input_dir @ [n]) \<noteq> None
                  \<and> convert_bin_to_fbin w2 (input_dir @ [n]) (output_dir @ [o']) d = (Inl e, w3)
                  \<and> w' = print (Error_converting n e) w3))"
proof -
  let ?w2 = "print (Warning_not_found input_name) w1"
  have go_on: "main_loop input_dir output_dir (pre @ (input_name, output_name, dtype) # post) w
             = main_loop input_dir output_dir post ?w2" for post
    using pre absent by (simp add: main_loop_append)
  have skip: "main_loop input_dir output_dir (pre @ [(input_name, output_name, dtype)]) w
           = (Inr (), ?w2)"
    using go_on [of "[]"] by simp
  have same: "files ?w2 = files w1" by simp
  have next_entry: "main_loop input_dir output_dir
                (pre @ (input_name, output_name, dtype) # (next_name, next_output, next_dtype) # post) w
               = (case convert_bin_to_fbin ?w2
                         (input_dir @ [next_name]) (output_dir @ [next_output]) next_dtype of
                    (Inr u, w3) \<Rightarrow> main_loop input_dir output_dir post (print Blank w3)
                  | (Inl e, w3) \<Rightarrow> (Inl (SystemExit 1), print (Error_converting next_name e) w3))"
    if present: "files w1 (input_dir @ [next_name]) \<noteq> None"
    for next_name next_output next_dtype post
  proof -
    obtain r w3 where c: "convert_bin_to_fbin ?w2 (input_dir @ [next_name])
        (output_dir @ [next_output]) next_dtype = (r, w3)"
      by (cases "convert_bin_to_fbin ?w2 (input_dir @ [next_name])
        (output_dir @ [next_output]) next_dtype")
    show ?thesis
    proof (cases r)
      case (Inl e)
      have "is_Exception e" using c Inl convert_Exception by blast
      then show ?thesis using go_on present c Inl by (auto simp add: Let_def)
    next
      case (Inr u)
      then show ?thesis using go_on present c by (auto simp add: Let_def)
    qed
  qed
  have ends: "\<exists>ls. stdout w' = stdout w1 @ Warning_not_found input_name # ls
                \<and> (\<forall>n o' d. (n, o', d) \<in> set post \<longrightarrow>
                      Warning_not_found n \<in> set ls
                    \<or> Converting (input_dir @ [n]) (output_dir @ [o']) \<in> set ls)"
    if "main_loop input_dir output_dir (pre @ (input_name, output_name, dtype) # post) w
               = (Inr (), w')" for post w'
  proof -
    have "main_loop input_dir output_dir post ?w2 = (Inr (), w')" using that go_on by simp
    from main_loop_completes [OF this] show ?thesis by (simp add: stdout_print)
  qed
  have exits: "x = SystemExit 1
             \<and> (\<exists>n o' d e w2 w3. (n, o', d) \<in> set post \<and> files w2 (input_dir @ [n]) \<noteq> None
                  \<and> convert_bin_to_fbin w2 (input_dir @ [n]) (output_dir @ [o']) d = (Inl e, w3)
                  \<and> w' = print (Error_converting n e) w3)"
    if "main_loop input_dir output_dir (pre @ (input_name, output_name, dtype) # post) w
               = (Inl x, w')" for post x w'
  proof -
    have "main_loop input_dir output_dir post ?w2 = (Inl x, w')" using that go_on by simp
    from main_loop_aborts [OF this] show ?thesis .
  qed
  show ?thesis
    using skip same go_on next_entry ends exits by (intro conjI allI impI) blast+
qed

theorem missing_file_skipped_witness:
  "fst (main_loop [''in''] [''out''] conversions (batch_world None)) = Inr ()
   \<and> stdout (snd (main_loop [''in''] [''out''] conversions (batch_world None)))
       = [Converting [''in'', ''openai_500k_train_vectors.bin''] [''out'', ''openai500k_base.fbin''],
          Input_format 1 1, Output_format 1 1, Conversion_successful, Blank,
          Warning_not_found ''openai_500k_test_queries.bin'',
          Converting [''in'', ''openai_500k_ground_truth.bin'']
            [''out'', ''openai500k_groundtruth.ibin''],
          Input_format 1 1, Output_format 1 1, Conversion_successful, Blank]
   \<and> files (snd (main_loop [''in''] [''out''] conversions (batch_world None)))
       [''out'', ''openai500k_query.fbin''] = None
   \<and> files (snd (main_loop [''in''] [''out''] conversions (batch_world None)))
       [''out'', ''openai500k_groundtruth.ibin'']
       = Some [1, 0, 0, 0, 1, 0, 0, 0, 5, 0, 0, 0, 0, 0, 0, 0]"
proof -
  let ?w1 = "(batch_world None)
          \<lparr>files := (files (batch_world None))
              ([''out'', ''openai500k_base.fbin''] \<mapsto> [1, 0, 0, 0, 1, 0, 0, 0, 7, 7, 7, 7]),
           stdout := [Converting [''in'', ''openai_500k_train_vectors.bin'']
                        [''out'', ''openai500k_base.fbin''],
                      Input_format 1 1, Output_format 1 1, Conversion_successful, Blank]\<rparr>"
  have h2: "files ?w1 ([''in''] @ [''openai_500k_test_queries.bin'']) = None"
    by (simp add: batch_world_def)
  have present: "files ?w1 ([''in''] @ [''openai_500k_ground_truth.bin'']) \<noteq> None"
    by (simp add: batch_world_def)
  have cs: "conversions =
      [(''openai_500k_train_vectors.bin'', ''openai500k_base.fbin'', ''f'')]
        @ (''openai_500k_test_queries.bin'', ''openai500k_query.fbin'', ''f'')
        # (''openai_500k_ground_truth.bin'', ''openai500k_groundtruth.ibin'', ''q'') # []"
    by (simp add: conversions_def)
  note t = missing_file_skipped [OF first_entry_run h2, of "''openai500k_query.fbin''" "''f''",
      THEN conjunct2, THEN conjunct2, THEN conjunct2, THEN conjunct1, rule_format, OF present]
  have "main_loop [''in''] [''out''] conversions (batch_world None)
      = (case convert_bin_to_fbin (print (Warning_not_found ''openai_500k_test_queries.bin'') ?w1)
               ([''in''] @ [''openai_500k_ground_truth.bin''])
               ([''out''] @ [''openai500k_groundtruth.ibin'']) ''q'' of
           (Inr u, w3) \<Rightarrow> main_loop [''in''] [''out''] [] (print Blank w3)
         | (Inl e, w3) \<Rightarrow>
             (Inl (SystemExit 1), print (Error_converting ''openai_500k_ground_truth.bin'' e) w3))"
    unfolding cs by (rule t)
  then show ?thesis by (simp add: batch_world_def convert_defs)
qed

text \<open>
  Claim C6. When the loop has run through the entries before an entry whose source file is
  there and whose conversion raises an exception \<open>e\<close>, it prints the error line with the
  name of that input file and \<open>e\<close> and exits with status 1, whatever entries follow: none
  of them is tried. Nothing is rolled back: every file other than the destination of the
  failing entry is as it was when that conversion began, the destinations written by the
  earlier entries among them.
\<close>

theorem conversion_error_aborts:
  assumes pre: "main_loop input_dir output_dir pre w = (Inr (), w1)"
    and present: "files w1 (input_dir @ [input_name]) \<noteq> None"
    and raises: "convert_bin_to_fbin w1 (input_dir @ [input_name]) (output_dir @ [output_name]) dtype
                   = (Inl e, w2)"
  shows "main_loop input_dir output_dir (pre @ (input_name, output_name, dtype) # post) w
           = (Inl (SystemExit 1), print (Error_converting input_name e) w2)
         \<and> (\<forall>p. p \<noteq> output_dir @ [output_name] \<longrightarrow>
               files (print (Error_converting input_name e) w2) p = files w1 p)"
proof -
  have ex: "is_Exception e" using convert_Exception [OF raises] .
  have "main_loop input_dir output_dir (pre @ (input_name, output_name, dtype) # post) w
           = (Inl (SystemExit 1), print (Error_converting input_name e) w2)"
    using pre present raises ex by (auto simp add: main_loop_append Let_def)
  moreover have "\<forall>p. p \<noteq> output_dir @ [output_name] \<longrightarrow>
               files (print (Error_converting input_name e) w2) p = files w1 p"
    using convert_files_other [OF raises] by simp
  ultimately show ?thesis by blast
qed

theorem conversion_error_aborts_witness:
  "fst (main_loop [''in''] [''out''] conversions
       (batch_world (Some [4, 0, 0, 0, 1, 0, 0, 0, 1, 2, 3, 4, 5, 6, 7, 8, 9, 10, 11, 12])))
     = Inl (SystemExit 1)
   \<and> last (stdout (snd (main_loop [''in''] [''out''] conversions
       (batch_world (Some [4, 0, 0, 0, 1, 0, 0, 0, 1, 2, 3, 4, 5, 6, 7, 8, 9, 10, 11, 12])))))
     = Error_converting ''openai_500k_test_queries.bin'' (Data_size_mismatch 16 12)
   \<and> files (snd (main_loop [''in''] [''out''] conversions
       (batch_world (Some [4, 0, 0, 0, 1, 0, 0, 0, 1, 2, 3, 4, 5, 6, 7, 8, 9, 10, 11, 12]))))
       [''out'', ''openai500k_base.fbin''] = Some [1, 0, 0, 0, 1, 0, 0, 0, 7, 7, 7, 7]
   \<and> files (snd (main_loop [''in''] [''out''] conversions
       (batch_world (Some [4, 0, 0, 0, 1, 0, 0, 0, 1, 2, 3, 4, 5, 6, 7, 8, 9, 10, 11, 12]))))
       [''out'', ''openai500k_groundtruth.ibin''] = None"
proof -
  let ?pre = "[(''openai_500k_train_vectors.bin'', ''openai500k_base.fbin'', ''f'')]"
  let ?w = "batch_world (Some [4, 0, 0, 0, 1, 0, 0, 0, 1, 2, 3, 4, 5, 6, 7, 8, 9, 10, 11, 12])"
  let ?w1 = "snd (main_loop [''in''] [''out''] ?pre ?w)"
  let ?c = "convert_bin_to_fbin ?w1 ([''in''] @ [''openai_500k_test_queries.bin''])
              ([''out''] @ [''openai500k_query.fbin'']) ''f''"
  have h1: "main_loop [''in''] [''out''] ?pre ?w = (Inr (), ?w1)"
    by (rule result_pair) (rule first_entry_converted)
  have h2: "files ?w1 ([''in''] @ [''openai_500k_test_queries.bin'']) \<noteq> None"
    by (simp only: first_entry_files) (simp add: batch_world_def)
  have f: "files ?w1 [''in'', ''openai_500k_test_queries.bin'']
      = Some ([4, 0, 0, 0] @ [1, 0, 0, 0] @ [1, 2, 3, 4, 5, 6, 7, 8, 9, 10, 11, 12])"
    by (simp only: first_entry_files) (simp add: batch_world_def)
  have len: "length [1, 2, 3, 4, 5, 6, 7, 8, 9, 10, 11, 12 :: byte] = 12" by simp
  have m: "memory ?w1 = 1024" by (simp only: first_entry_run snd_conv) (simp add: batch_world_def)
  have ds: "(16 :: int) = to_signed32 (le_uint [4, 0, 0, 0]) * to_signed32 (le_uint [1, 0, 0, 0])
      * element_size ''f''"
    by (simp add: to_signed32_def element_size_def)
  have short: "int (length [1, 2, 3, 4, 5, 6, 7, 8, 9, 10, 11, 12 :: byte]) < 16" by simp
  have e: "(if sys_maxsize - 33 < 16 then OverflowError
            else if 4 < (16 :: int) \<and> int (memory ?w1) < 16 then MemoryError
            else Data_size_mismatch 16 12) = Data_size_mismatch 16 12"
    by (simp only: m) (simp add: sys_maxsize_def)
  have "fst ?c = Inl (Data_size_mismatch 16 12)"
    using convert_short_payload [OF f _ _ ds short, of "[''out'', ''openai500k_query.fbin'']"]
    unfolding len e by auto
  then have h3: "?c = (Inl (Data_size_mismatch 16 12), snd ?c)" by (rule result_pair)
  note t = conversion_error_aborts [OF h1 h2 h3, of
      "[(''openai_500k_ground_truth.bin'', ''openai500k_groundtruth.ibin'', ''q'')]"]
  have run: "main_loop [''in''] [''out''] conversions ?w
      = (Inl (SystemExit 1),
         print (Error_converting ''openai_500k_test_queries.bin'' (Data_size_mismatch 16 12)) (snd ?c))"
    using t by (simp add: conversions_def)
  have keep: "\<And>p. p \<noteq> [''out'', ''openai500k_query.fbin''] \<Longrightarrow>
      files (snd (main_loop [''in''] [''out''] conversions ?w)) p = files ?w1 p"
    using t by (simp add: run)
  have base: "files ?w1 [''out'', ''openai500k_base.fbin''] = Some [1, 0, 0, 0, 1, 0, 0, 0, 7, 7, 7, 7]"
    by (simp only: first_entry_files) simp
  have gt: "files ?w1 [''out'', ''openai500k_groundtruth.ibin''] = None"
    by (simp only: first_entry_files) (simp add: batch_world_def)
  show ?thesis
    using base gt keep [of "[''out'', ''openai500k_base.fbin'']"]
      keep [of "[''out'', ''openai500k_groundtruth.ibin'']"]
    by (simp add: run print_def)
qed

end
